theory Spec2Isabelle
  imports Complex_Main "HOL-Library.Multiset"
begin

section \<open>JavaScript primitives used by the dashboard\<close>

text \<open>
  Strings are lists of characters (code units below 256). An array index and an HTTP
  status are natural numbers, printed in decimal by a template literal.
\<close>

definition digit_char :: "nat \<Rightarrow> char" where
  "digit_char d = ''0123456789abcdefghijklmnopqrstuvwxyz'' ! d"

function radix_string :: "nat \<Rightarrow> nat \<Rightarrow> string" where
  "radix_string b n =
     (if b < 2 \<or> n < b then [digit_char n]
      else radix_string b (n div b) @ [digit_char (n mod b)])"
  by pat_completeness auto
termination
  by (relation "measure (\<lambda>(b, n). n)") auto

declare radix_string.simps [simp del]

definition nat_to_string :: "nat \<Rightarrow> string" where
  "nat_to_string n = radix_string 10 n"

text \<open>\<open>index.toString(36)\<close> on an array index.\<close>

definition toString36 :: "nat \<Rightarrow> string" where
  "toString36 n = radix_string 36 n"

text \<open>Truthiness of the values the code tests with \<open>!x\<close>, \<open>x ? a : b\<close> and \<open>x && y\<close>.\<close>

definition truthy_string :: "string \<Rightarrow> bool" where
  "truthy_string s = (s \<noteq> [])"

text \<open>
  The numbers that \<open>z.number()\<close> lets through: the finite ones, as reals (0 and -0 are
  one value: they test and print alike), and the two infinities; NaN is rejected by the
  schema. A number is falsy exactly when it is zero. What a template literal prints for a
  number is not modelled: it is the parameter \<open>toString\<close> of the functions that
  print one.
\<close>

datatype number = Finite real | PosInfinity | NegInfinity

definition truthy_number :: "number \<Rightarrow> bool" where
  "truthy_number n = (n \<noteq> Finite 0)"

text \<open>\<open>a ?? b\<close>: the left operand unless it is null or undefined.\<close>

definition nullish :: "'a option \<Rightarrow> 'a \<Rightarrow> 'a" where
  "nullish a b = (case a of Some v \<Rightarrow> v | None \<Rightarrow> b)"

section \<open>Data model (lib/dokploy)\<close>

text \<open>
  The types inferred from the schemas. An optional or nullable field is an \<open>option\<close>
  (the code never tells null from undefined); \<open>host\<close> is required.
\<close>

record domain =
  domainId :: "string option"
  host :: string
  https :: "bool option"
  port :: "number option"
  path :: "string option"
  serviceName :: "string option"

definition resolveDomainUrl :: "(number \<Rightarrow> string) \<Rightarrow> domain option \<Rightarrow> string option" where
  "resolveDomainUrl toString d =
     (case d of
        None \<Rightarrow> None
      | Some dm \<Rightarrow>
          if \<not> truthy_string (host dm) then None
          else
            let protocol = (if https dm = Some True then ''https'' else ''http'');
                port_seg = (case port dm of
                              None \<Rightarrow> ''''
                            | Some n \<Rightarrow> if truthy_number n then '':'' @ toString n else '''');
                path_seg = (case path dm of
                              None \<Rightarrow> ''''
                            | Some p \<Rightarrow> if truthy_string p \<and> p \<noteq> ''/'' then p else '''')
            in Some (protocol @ ''://'' @ host dm @ port_seg @ path_seg))"

record resource =
  composeId :: "string option"
  applicationId :: "string option"
  databaseId :: "string option"
  name_r :: "string option"
  appName :: "string option"
  composeStatus :: "string option"
  status :: "string option"
  domains :: "domain option list option"

record environment =
  environmentId :: "string option"
  name_e :: "string option"
  description_e :: "string option"
  applications :: "resource list option"
  compose :: "resource list option"
  postgres :: "resource list option"
  mysql :: "resource list option"
  mariadb :: "resource list option"
  mongo :: "resource list option"
  redis :: "resource list option"

record project =
  projectId :: "string option"
  name_p :: "string option"
  description_p :: "string option"
  environments :: "environment list option"

record resource_section =
  key :: string
  label :: string

definition resourceSections :: "resource_section list" where
  "resourceSections =
     [\<lparr>key = ''applications'', label = ''Applications''\<rparr>,
      \<lparr>key = ''compose'', label = ''Compose Stacks''\<rparr>,
      \<lparr>key = ''postgres'', label = ''Postgres''\<rparr>,
      \<lparr>key = ''mysql'', label = ''MySQL''\<rparr>,
      \<lparr>key = ''mariadb'', label = ''MariaDB''\<rparr>,
      \<lparr>key = ''mongo'', label = ''MongoDB''\<rparr>,
      \<lparr>key = ''redis'', label = ''Redis''\<rparr>]"

text \<open>\<open>environment[section.key]\<close>: the property of the environment named by the key.\<close>

definition env_get :: "environment \<Rightarrow> string \<Rightarrow> resource list option" where
  "env_get env k =
     (if k = ''applications'' then applications env
      else if k = ''compose'' then compose env
      else if k = ''postgres'' then postgres env
      else if k = ''mysql'' then mysql env
      else if k = ''mariadb'' then mariadb env
      else if k = ''mongo'' then mongo env
      else if k = ''redis'' then redis env
      else None)"

section \<open>Flattening (App.tsx)\<close>

record ResourceEntry =
  id_entry :: string
  projectKey :: string
  title :: string
  projectName :: string
  environmentName :: "string option"
  sectionLabel :: string
  urls :: "string list"

text \<open>
  \<open>xs.forEach((x, i) => ...)\<close> whose body mutates the \<open>entries\<close> array: the array is
  the state threaded through the calls, the index starts at the given number.
\<close>

fun forEach :: "('a \<Rightarrow> nat \<Rightarrow> 's \<Rightarrow> 's) \<Rightarrow> 'a list \<Rightarrow> nat \<Rightarrow> 's \<Rightarrow> 's" where
  "forEach f [] i s = s"
| "forEach f (x # xs) i s = forEach f xs (Suc i) (f x i s)"

text \<open>
  \<open>Array.prototype.sort\<close> with a comparator: ECMAScript requires a stable sort, and that
  is what a right-to-left insertion gives (an element goes before the first later element
  that it does not compare greater than).
\<close>

fun insert_by :: "('a \<Rightarrow> 'a \<Rightarrow> int) \<Rightarrow> 'a \<Rightarrow> 'a list \<Rightarrow> 'a list" where
  "insert_by c x [] = [x]"
| "insert_by c x (y # ys) = (if c x y \<le> 0 then x # y # ys else y # insert_by c x ys)"

definition array_sort :: "('a \<Rightarrow> 'a \<Rightarrow> int) \<Rightarrow> 'a list \<Rightarrow> 'a list" where
  "array_sort c xs = foldr (insert_by c) xs []"

text \<open>Lines 77 to 103: the entry pushed for one resource.\<close>

definition resource_urls :: "(number \<Rightarrow> string) \<Rightarrow> resource \<Rightarrow> string list" where
  "resource_urls toString r =
     List.map_filter
       (\<lambda>v. case v of None \<Rightarrow> None | Some u \<Rightarrow> if length u > 0 then Some u else None)
       (map (\<lambda>d. case d of None \<Rightarrow> None | Some dm \<Rightarrow> resolveDomainUrl toString (Some dm))
          (nullish (domains r) []))"

definition make_entry ::
  "(number \<Rightarrow> string) \<Rightarrow> project \<Rightarrow> string \<Rightarrow> string \<Rightarrow> string option \<Rightarrow> resource_section \<Rightarrow> resource \<Rightarrow> nat \<Rightarrow> ResourceEntry"
where
  "make_entry toString p pName pKey envName sec r resIndex =
     (let urls' = resource_urls toString r;
          title' = nullish (name_r r) (nullish (appName r) ''Untitled resource'');
          id' = nullish (composeId r)
                  (nullish (applicationId r)
                     (nullish (databaseId r)
                        (nullish (projectId p) pName @ ''-'' @ key sec @ ''-'' @
                         nat_to_string resIndex)))
      in \<lparr>id_entry = id', projectKey = pKey, title = title', projectName = pName,
          environmentName = envName, sectionLabel = label sec, urls = urls'\<rparr>)"

definition visit_section ::
  "(number \<Rightarrow> string) \<Rightarrow> project \<Rightarrow> string \<Rightarrow> string \<Rightarrow> environment \<Rightarrow> resource_section \<Rightarrow> nat \<Rightarrow> ResourceEntry list \<Rightarrow>
   ResourceEntry list"
where
  "visit_section toString p pName pKey env sec j entries =
     (case env_get env (key sec) of
        None \<Rightarrow> entries
      | Some resources \<Rightarrow>
          forEach (\<lambda>r resIndex acc. acc @ [make_entry toString p pName pKey (name_e env) sec r resIndex])
            resources 0 entries)"

definition visit_environment ::
  "(number \<Rightarrow> string) \<Rightarrow> project \<Rightarrow> string \<Rightarrow> string \<Rightarrow> environment \<Rightarrow> nat \<Rightarrow> ResourceEntry list \<Rightarrow> ResourceEntry list"
where
  "visit_environment toString p pName pKey env j entries =
     forEach (visit_section toString p pName pKey env) resourceSections 0 entries"

definition project_name :: "project \<Rightarrow> string" where
  "project_name p = nullish (name_p p) ''Unnamed project''"

definition project_key :: "project \<Rightarrow> nat \<Rightarrow> string" where
  "project_key p index =
     nullish (projectId p) (nullish (name_p p) (''project-'' @ toString36 index))"

definition visit_project ::
  "(number \<Rightarrow> string) \<Rightarrow> project \<Rightarrow> nat \<Rightarrow> ResourceEntry list \<Rightarrow> ResourceEntry list" where
  "visit_project toString p index entries =
     forEach (visit_environment toString p (project_name p) (project_key p index))
       (nullish (environments p) []) 0 entries"

definition collect_entries :: "(number \<Rightarrow> string) \<Rightarrow> project list \<Rightarrow> ResourceEntry list" where
  "collect_entries toString projects = forEach (visit_project toString) projects 0 []"

text \<open>
  The comparator of the final sort. \<open>localeCompare\<close> belongs to the host's collation and
  is a parameter \<open>lc\<close>: negative, zero or positive.
\<close>

definition compare_entries :: "(string \<Rightarrow> string \<Rightarrow> int) \<Rightarrow> ResourceEntry \<Rightarrow> ResourceEntry \<Rightarrow> int" where
  "compare_entries lc a b =
     (if projectName a \<noteq> projectName b then lc (projectName a) (projectName b)
      else lc (title a) (title b))"

definition flattenProjects ::
  "(number \<Rightarrow> string) \<Rightarrow> (string \<Rightarrow> string \<Rightarrow> int) \<Rightarrow> project list \<Rightarrow> ResourceEntry list"
where
  "flattenProjects toString lc projects =
     array_sort (compare_entries lc) (collect_entries toString projects)"

text \<open>
  The entries of one section, environment and project as lists: the view of the nested
  loops that the lemmas below prove equal to \<open>collect_entries\<close>.
\<close>

definition section_entries ::
  "(number \<Rightarrow> string) \<Rightarrow> project \<Rightarrow> nat \<Rightarrow> environment \<Rightarrow> resource_section \<Rightarrow> ResourceEntry list" where
  "section_entries toString p i env sec =
     (case env_get env (key sec) of
        None \<Rightarrow> []
      | Some rs \<Rightarrow> map (\<lambda>(k, r). make_entry toString p (project_name p) (project_key p i) (name_e env) sec r k)
                    (enumerate 0 rs))"

definition project_entries :: "(number \<Rightarrow> string) \<Rightarrow> project \<Rightarrow> nat \<Rightarrow> ResourceEntry list" where
  "project_entries toString p i =
     concat (map (\<lambda>env. concat (map (section_entries toString p i env) resourceSections))
               (nullish (environments p) []))"

text \<open>
  What the specification says of an entry's id and urls, in its own words: the id is the
  first present of composeId, applicationId, databaseId, else project id (or project
  name), category key and position joined by dashes; the urls are the domains mapped
  through \<open>resolveDomainUrl\<close> with nulls and empty strings discarded.
\<close>

definition spec_entry_id :: "project \<Rightarrow> resource_section \<Rightarrow> nat \<Rightarrow> resource \<Rightarrow> string" where
  "spec_entry_id p sec resIndex r =
     (case composeId r of
        Some c \<Rightarrow> c
      | None \<Rightarrow>
          (case applicationId r of
             Some a \<Rightarrow> a
           | None \<Rightarrow>
               (case databaseId r of
                  Some d \<Rightarrow> d
                | None \<Rightarrow>
                    (case projectId p of
                       Some pid \<Rightarrow> pid
                     | None \<Rightarrow> (case name_p p of Some n \<Rightarrow> n | None \<Rightarrow> ''Unnamed project'')) @
                    ''-'' @ key sec @ ''-'' @ nat_to_string resIndex)))"


text \<open>The position of a resource in the input: project index, environment, section, index.\<close>

definition resource_at ::
  "project list \<Rightarrow> nat \<Rightarrow> environment \<Rightarrow> resource_section \<Rightarrow> nat \<Rightarrow> resource \<Rightarrow> bool"
where
  "resource_at ps i env sec k r \<longleftrightarrow>
     i < length ps \<and> env \<in> set (nullish (environments (ps ! i)) []) \<and>
     sec \<in> set resourceSections \<and>
     (case env_get env (key sec) of None \<Rightarrow> False | Some rs \<Rightarrow> k < length rs \<and> r = rs ! k)"



fun codeunit_compare :: "string \<Rightarrow> string \<Rightarrow> int" where
  "codeunit_compare [] [] = 0"
| "codeunit_compare [] (y # ys) = - 1"
| "codeunit_compare (x # xs) [] = 1"
| "codeunit_compare (x # xs) (y # ys) =
     (if x = y then codeunit_compare xs ys
      else if (of_char x :: nat) < of_char y then - 1 else 1)"

text \<open>
  Sample inputs, and a rendering of numbers to run them with. It agrees with JavaScript's
  on the integers of magnitude below 10^21, which print as their decimal digits, and on
  the infinities; these are the only numbers the samples print, and it is not meant as
  JavaScript's rendering of any other number.
\<close>

definition integer_rendering :: "number \<Rightarrow> string" where
  "integer_rendering n =
     (case n of
        Finite x \<Rightarrow>
          if x < 0 then CHR ''-'' # nat_to_string (nat \<lfloor>- x\<rfloor>) else nat_to_string (nat \<lfloor>x\<rfloor>)
      | PosInfinity \<Rightarrow> ''Infinity''
      | NegInfinity \<Rightarrow> ''-Infinity'')"

definition blank_resource :: resource where
  "blank_resource = \<lparr>composeId = None, applicationId = None, databaseId = None, name_r = None,
     appName = None, composeStatus = None, status = None, domains = None\<rparr>"

definition blank_environment :: environment where
  "blank_environment = \<lparr>environmentId = None, name_e = None, description_e = None,
     applications = None, compose = None, postgres = None, mysql = None, mariadb = None,
     mongo = None, redis = None\<rparr>"

definition blank_project :: project where
  "blank_project = \<lparr>projectId = None, name_p = None, description_p = None, environments = None\<rparr>"


definition two_apps_example :: project where
  "two_apps_example =
     blank_project\<lparr>name_p := Some ''shop'', environments := Some
       [blank_environment\<lparr>applications := Some
          [blank_resource\<lparr>name_r := Some ''web''\<rparr>, blank_resource\<lparr>name_r := Some ''api''\<rparr>]\<rparr>]\<rparr>"


definition duplicate_id_example :: "project list" where
  "duplicate_id_example =
     [blank_project\<lparr>environments := Some
        [blank_environment\<lparr>name_e := Some ''production'',
                            applications := Some [blank_resource]\<rparr>,
         blank_environment\<lparr>name_e := Some ''staging'',
                            applications := Some [blank_resource]\<rparr>]\<rparr>]"



section \<open>Pinned entries (App.tsx)\<close>

definition togglePin :: "string \<Rightarrow> string list \<Rightarrow> string list" where
  "togglePin entryId prev =
     (if entryId \<in> set prev then filter (\<lambda>key. key \<noteq> entryId) prev
      else prev @ [entryId])"

definition pinnedEntries :: "ResourceEntry list \<Rightarrow> string list \<Rightarrow> ResourceEntry list" where
  "pinnedEntries entries pinnedResources =
     filter (\<lambda>entry. id_entry entry \<in> set pinnedResources) entries"

definition regularEntries :: "ResourceEntry list \<Rightarrow> string list \<Rightarrow> ResourceEntry list" where
  "regularEntries entries pinnedResources =
     filter (\<lambda>entry. id_entry entry \<notin> set pinnedResources) entries"

text \<open>
  JSON values, and what a \<open>throw\<close> carries: an \<open>Error\<close> object with its message, or
  something else. A computation that may throw returns \<open>thrown + 'a\<close>.
\<close>

datatype json =
    JNull
  | JBool bool
  | JNum int
  | JStr string
  | JArr "json list"
  | JObj "(string \<times> json) list"

datatype thrown = ErrorObject string | NotAnError

definition try_catch :: "thrown + 'a \<Rightarrow> (thrown \<Rightarrow> thrown + 'a) \<Rightarrow> thrown + 'a" where
  "try_catch body handler = (case body of Inl e \<Rightarrow> handler e | Inr v \<Rightarrow> Inr v)"

definition isArray :: "json \<Rightarrow> bool" where
  "isArray v = (case v of JArr _ \<Rightarrow> True | _ \<Rightarrow> False)"

definition PIN_STORAGE_KEY :: string where
  "PIN_STORAGE_KEY = ''dokdash:pinnedResources''"

text \<open>
  The initializer of \<open>pinnedResources\<close>. \<open>window\<close> is absent outside a browser; otherwise
  it gives \<open>localStorage.getItem\<close>, which returns null or a string, or throws.
  \<open>JSON.parse\<close> is the parameter \<open>JSON_parse\<close>. The warning written to the console is
  not modelled.
\<close>

definition init_pinnedResources ::
  "(string \<Rightarrow> thrown + json) \<Rightarrow> (string \<Rightarrow> thrown + string option) option \<Rightarrow> thrown + string list"
where
  "init_pinnedResources JSON_parse window =
     (case window of
        None \<Rightarrow> Inr []
      | Some getItem \<Rightarrow>
          try_catch
            (case getItem PIN_STORAGE_KEY of
               Inl e \<Rightarrow> Inl e
             | Inr stored \<Rightarrow>
                 (case stored of
                    None \<Rightarrow> Inr []
                  | Some s \<Rightarrow>
                      if \<not> truthy_string s then Inr []
                      else
                        (case JSON_parse s of
                           Inl e \<Rightarrow> Inl e
                         | Inr parsed \<Rightarrow>
                             Inr (if isArray parsed
                                  then (case parsed of
                                          JArr items \<Rightarrow>
                                            List.map_filter
                                              (\<lambda>item. case item of JStr s \<Rightarrow> Some s | _ \<Rightarrow> None)
                                              items
                                        | _ \<Rightarrow> [])
                                  else []))))
            (\<lambda>error. Inr []))"

section \<open>Server: base URL (index.tsx)\<close>

text \<open>
  \<open>String.prototype.trim\<close> removes white space and line terminators from both ends; among
  the code units below 256 these are tab, line feed, vertical tab, form feed, carriage
  return, space and no-break space.
\<close>

definition is_whitespace :: "char \<Rightarrow> bool" where
  "is_whitespace c = ((of_char c :: nat) \<in> {9, 10, 11, 12, 13, 32, 160})"

definition trim :: "string \<Rightarrow> string" where
  "trim s = rev (dropWhile is_whitespace (rev (dropWhile is_whitespace s)))"

text \<open>\<open>s.replace(/\/$/, "")\<close>: without the \<open>m\<close> flag, \<open>$\<close> is the end of the string.\<close>

definition strip_trailing_slash :: "string \<Rightarrow> string" where
  "strip_trailing_slash s = (if s \<noteq> [] \<and> last s = CHR ''/'' then butlast s else s)"

text \<open>
  \<open>/\/api(?:\/|$)/.test(s)\<close>: the pattern is tried at each position from the left; it
  matches \<open>/api\<close> followed by a slash or by the end of the string.
\<close>

definition api_pattern_here :: "string \<Rightarrow> bool" where
  "api_pattern_here s =
     (take 4 s = ''/api'' \<and> (drop 4 s = [] \<or> hd (drop 4 s) = CHR ''/''))"

fun api_pattern_test :: "string \<Rightarrow> bool" where
  "api_pattern_test [] = False"
| "api_pattern_test (c # cs) = (api_pattern_here (c # cs) \<or> api_pattern_test cs)"

definition sanitizeBaseUrl :: "string \<Rightarrow> string option" where
  "sanitizeBaseUrl input =
     (let trimmed = trim input in
      if \<not> truthy_string trimmed then None
      else
        let normalized = strip_trailing_slash trimmed;
            normalized' = (if \<not> api_pattern_test normalized then normalized @ ''/api''
                           else normalized)
        in Some normalized')"

text \<open>
  The strings the pattern matches, stated without the scan: \<open>/api\<close> somewhere in the
  string, followed by a slash or by nothing.
\<close>

definition api_pattern_occurs :: "string \<Rightarrow> bool" where
  "api_pattern_occurs s \<longleftrightarrow>
     (\<exists>pre post. s = pre @ ''/api'' @ post \<and> (post = [] \<or> hd post = CHR ''/''))"

text \<open>
  The specification's wording is about the URL: it has an \<open>/api\<close> path segment. The
  path of a URL starts at the first slash after \<open>scheme://authority\<close> and ends before
  a query or a fragment; its segments are the pieces between slashes.
\<close>

fun after_scheme :: "string \<Rightarrow> string option" where
  "after_scheme [] = None"
| "after_scheme (c # cs) =
     (if take 3 (c # cs) = ''://'' then Some (drop 3 (c # cs)) else after_scheme cs)"

definition url_path :: "string \<Rightarrow> string" where
  "url_path s =
     takeWhile (\<lambda>c. c \<noteq> CHR ''?'' \<and> c \<noteq> CHR ''#'')
       (dropWhile (\<lambda>c. c \<noteq> CHR ''/'') (case after_scheme s of None \<Rightarrow> s | Some rest \<Rightarrow> rest))"

fun path_segments :: "string \<Rightarrow> string list" where
  "path_segments [] = [[]]"
| "path_segments (c # cs) =
     (if c = CHR ''/'' then [] # path_segments cs
      else (case path_segments cs of [] \<Rightarrow> [[c]] | seg # rest \<Rightarrow> (c # seg) # rest))"

definition has_api_path_segment :: "string \<Rightarrow> bool" where
  "has_api_path_segment s = (''api'' \<in> set (path_segments (url_path s)))"

section \<open>Schema validation (lib/dokploy)\<close>

text \<open>
  The schemas are data: the combinators the source builds them from. \<open>parse\<close> is the
  validation the library documents for them. An object schema checks the fields of its
  shape and, by default, strips the keys it does not know; \<open>.passthrough()\<close> keeps
  them. A value that may be \<open>undefined\<close> (a missing property) is a \<open>json option\<close>.
  A JSON object is its list of properties; a property is read by its first occurrence.
\<close>

datatype unknown_keys = Strip | Passthrough

datatype schema =
    ZString
  | ZStringMin nat
  | ZBoolean
  | ZNumber
  | ZArray schema
  | ZObject "(string \<times> schema) list" unknown_keys
  | ZOptional schema
  | ZNullable schema
  | ZDefault schema json

datatype path_elem = Key string | Index nat

datatype issue_code = invalid_type | too_small

datatype zod_issue = Issue issue_code "path_elem list"

definition issues_of :: "(zod_issue list + 'a) list \<Rightarrow> zod_issue list" where
  "issues_of rs = concat (map (\<lambda>r. case r of Inl is \<Rightarrow> is | Inr _ \<Rightarrow> []) rs)"

definition parsed_items :: "(zod_issue list + json option) list \<Rightarrow> json list" where
  "parsed_items rs =
     map (\<lambda>r. case r of Inr (Some v) \<Rightarrow> v | _ \<Rightarrow> JNull) rs"

definition parsed_fields :: "(string \<times> (zod_issue list + json option)) list \<Rightarrow> (string \<times> json) list" where
  "parsed_fields fs =
     List.map_filter (\<lambda>(k, r). case r of Inr (Some v) \<Rightarrow> Some (k, v) | _ \<Rightarrow> None) fs"

definition extra_fields :: "(string \<times> schema) list \<Rightarrow> (string \<times> json) list \<Rightarrow> (string \<times> json) list" where
  "extra_fields shape kvs = filter (\<lambda>(k, v). k \<notin> fst ` set shape) kvs"

fun parse :: "schema \<Rightarrow> path_elem list \<Rightarrow> json option \<Rightarrow> zod_issue list + json option" where
  "parse ZString p v =
     (case v of Some (JStr s) \<Rightarrow> Inr (Some (JStr s)) | _ \<Rightarrow> Inl [Issue invalid_type p])"
| "parse (ZStringMin n) p v =
     (case v of
        Some (JStr s) \<Rightarrow> if n \<le> length s then Inr (Some (JStr s)) else Inl [Issue too_small p]
      | _ \<Rightarrow> Inl [Issue invalid_type p])"
| "parse ZBoolean p v =
     (case v of Some (JBool b) \<Rightarrow> Inr (Some (JBool b)) | _ \<Rightarrow> Inl [Issue invalid_type p])"
| "parse ZNumber p v =
     (case v of Some (JNum n) \<Rightarrow> Inr (Some (JNum n)) | _ \<Rightarrow> Inl [Issue invalid_type p])"
| "parse (ZArray s) p v =
     (case v of
        Some (JArr xs) \<Rightarrow>
          (let rs = map (\<lambda>(i, x). parse s (p @ [Index i]) (Some x)) (enumerate 0 xs) in
           if issues_of rs = [] then Inr (Some (JArr (parsed_items rs))) else Inl (issues_of rs))
      | _ \<Rightarrow> Inl [Issue invalid_type p])"
| "parse (ZObject shape mode) p v =
     (case v of
        Some (JObj kvs) \<Rightarrow>
          (let fs = map (\<lambda>(k, s). (k, parse s (p @ [Key k]) (map_of kvs k))) shape in
           if issues_of (map snd fs) = []
           then Inr (Some (JObj (parsed_fields fs @
                  (case mode of Passthrough \<Rightarrow> extra_fields shape kvs | Strip \<Rightarrow> []))))
           else Inl (issues_of (map snd fs)))
      | _ \<Rightarrow> Inl [Issue invalid_type p])"
| "parse (ZOptional s) p v = (case v of None \<Rightarrow> Inr None | Some x \<Rightarrow> parse s p (Some x))"
| "parse (ZNullable s) p v = (case v of Some JNull \<Rightarrow> Inr (Some JNull) | _ \<Rightarrow> parse s p v)"
| "parse (ZDefault s d) p v = (case v of None \<Rightarrow> parse s p (Some d) | Some x \<Rightarrow> parse s p (Some x))"

text \<open>The schemas of the source, field by field.\<close>

definition domainSchema :: schema where
  "domainSchema = ZObject
     [(''domainId'', ZOptional ZString),
      (''host'', ZStringMin 1),
      (''https'', ZOptional ZBoolean),
      (''port'', ZNullable (ZOptional ZNumber)),
      (''path'', ZNullable (ZOptional ZString)),
      (''serviceName'', ZNullable (ZOptional ZString))] Passthrough"

definition resourceSchema :: schema where
  "resourceSchema = ZObject
     [(''composeId'', ZOptional ZString),
      (''applicationId'', ZOptional ZString),
      (''databaseId'', ZOptional ZString),
      (''name'', ZOptional ZString),
      (''appName'', ZOptional ZString),
      (''composeStatus'', ZOptional ZString),
      (''status'', ZOptional ZString),
      (''domains'', ZNullable (ZOptional (ZArray domainSchema)))] Passthrough"

definition environmentSchema :: schema where
  "environmentSchema = ZObject
     [(''environmentId'', ZOptional ZString),
      (''name'', ZOptional ZString),
      (''description'', ZOptional (ZNullable ZString)),
      (''applications'', ZOptional (ZArray resourceSchema)),
      (''compose'', ZOptional (ZArray resourceSchema)),
      (''postgres'', ZOptional (ZArray resourceSchema)),
      (''mysql'', ZOptional (ZArray resourceSchema)),
      (''mariadb'', ZOptional (ZArray resourceSchema)),
      (''mongo'', ZOptional (ZArray resourceSchema)),
      (''redis'', ZOptional (ZArray resourceSchema))] Passthrough"

definition projectSchema :: schema where
  "projectSchema = ZObject
     [(''projectId'', ZOptional ZString),
      (''name'', ZOptional ZString),
      (''description'', ZOptional (ZNullable ZString)),
      (''environments'', ZOptional (ZArray environmentSchema))] Passthrough"

definition projectListSchema :: schema where
  "projectListSchema = ZArray projectSchema"

definition openApiInfoSchema :: schema where
  "openApiInfoSchema = ZObject
     [(''info'', ZOptional (ZObject
         [(''title'', ZOptional ZString),
          (''version'', ZOptional ZString),
          (''description'', ZOptional ZString)] Strip)),
      (''servers'', ZOptional (ZArray (ZObject [(''url'', ZString)] Strip)))] Passthrough"

definition configResponseSchema :: schema where
  "configResponseSchema = ZObject
     [(''projects'', projectListSchema),
      (''meta'', ZObject
         [(''title'', ZOptional ZString),
          (''version'', ZOptional ZString),
          (''description'', ZOptional ZString),
          (''servers'', ZDefault (ZArray ZString) (JArr [])),
          (''fetchedAt'', ZString)] Strip)] Strip"

text \<open>The keys a schema declares, and the reading of a property.\<close>

definition shape_keys :: "schema \<Rightarrow> string set" where
  "shape_keys s = (case s of ZObject shape _ \<Rightarrow> fst ` set shape | _ \<Rightarrow> {})"

definition json_get :: "json \<Rightarrow> string \<Rightarrow> json option" where
  "json_get v k = (case v of JObj kvs \<Rightarrow> map_of kvs k | _ \<Rightarrow> None)"

section \<open>Server: the /api/config handler (index.tsx)\<close>

text \<open>
  A response of an upstream call: status, status text and what \<open>response.json()\<close>
  gives (the parsed body, or a throw). \<open>ok\<close> is the fetch standard's: a status from
  200 to 299.
\<close>

record http_response =
  status_resp :: nat
  statusText :: string
  body_json :: "thrown + json"

definition ok :: "http_response \<Rightarrow> bool" where
  "ok r = (200 \<le> status_resp r \<and> status_resp r \<le> 299)"

text \<open>What the handler returns: \<open>Response.json(body, {status, headers})\<close>.\<close>

record reply =
  reply_status :: nat
  reply_body :: json
  reply_headers :: "(string \<times> string) list"

text \<open>An object literal: a property whose value is \<open>undefined\<close> is left out.\<close>

definition object_literal :: "(string \<times> json option) list \<Rightarrow> json" where
  "object_literal fs =
     JObj (List.map_filter (\<lambda>(k, v). case v of None \<Rightarrow> None | Some x \<Rightarrow> Some (k, x)) fs)"

text \<open>\<open>x?.k\<close> on a value that may be undefined.\<close>

definition optional_get :: "json option \<Rightarrow> string \<Rightarrow> json option" where
  "optional_get v k = (case v of None \<Rightarrow> None | Some x \<Rightarrow> json_get x k)"

text \<open>
  \<open>schema.parse(value)\<close> throws a \<open>ZodError\<close>, an \<open>Error\<close> whose message renders
  the issues; the rendering is the parameter \<open>zod_message\<close>.
\<close>

definition schema_parse ::
  "(zod_issue list \<Rightarrow> string) \<Rightarrow> schema \<Rightarrow> json \<Rightarrow> thrown + json"
where
  "schema_parse zod_message s v =
     (case parse s [] (Some v) of
        Inl is \<Rightarrow> Inl (ErrorObject (zod_message is))
      | Inr None \<Rightarrow> Inr JNull
      | Inr (Some out) \<Rightarrow> Inr out)"

definition request_headers :: "string \<Rightarrow> (string \<times> string) list" where
  "request_headers apiKey =
     [(''Accept'', ''application/json'')] @
     (if truthy_string apiKey then [(''x-api-key'', apiKey)] else [])"

definition openApiUrl :: "string \<Rightarrow> string" where
  "openApiUrl sanitizedBase = sanitizedBase @ ''/settings.getOpenApiDocument''"

definition projectsUrl :: "string \<Rightarrow> string" where
  "projectsUrl sanitizedBase = sanitizedBase @ ''/project.all''"

text \<open>
  \<open>await Promise.all([a, b])\<close>: both values, or the throw of a rejected one (of the first
  in the list when both reject; which of two rejections wins is a matter of timing that
  the model does not follow).
\<close>

definition promise_all :: "thrown + 'a \<Rightarrow> thrown + 'b \<Rightarrow> thrown + ('a \<times> 'b)" where
  "promise_all a b =
     (case a of
        Inl e \<Rightarrow> Inl e
      | Inr x \<Rightarrow> (case b of Inl e \<Rightarrow> Inl e | Inr y \<Rightarrow> Inr (x, y)))"

definition upstream_error :: "string \<Rightarrow> http_response \<Rightarrow> thrown" where
  "upstream_error what r =
     ErrorObject (''Unable to load Dokploy '' @ what @ '' ('' @ nat_to_string (status_resp r) @
                  '' '' @ statusText r @ '')'')"

definition error_message :: "thrown \<Rightarrow> string" where
  "error_message error = (case error of ErrorObject m \<Rightarrow> m | NotAnError \<Rightarrow> ''Unknown error'')"

definition error_reply :: "string \<Rightarrow> reply" where
  "error_reply message =
     \<lparr>reply_status = 500, reply_body = JObj [(''error'', JStr message)], reply_headers = []\<rparr>"

text \<open>Lines 52 to 73: the payload built from two successful responses.\<close>

definition build_payload ::
  "(zod_issue list \<Rightarrow> string) \<Rightarrow> string \<Rightarrow> http_response \<Rightarrow> http_response \<Rightarrow> thrown + reply"
where
  "build_payload zod_message now openApiResponse projectsResponse =
     (case body_json openApiResponse of
        Inl e \<Rightarrow> Inl e
      | Inr openApiJson \<Rightarrow>
     (case body_json projectsResponse of
        Inl e \<Rightarrow> Inl e
      | Inr projectsJson \<Rightarrow>
     (case schema_parse zod_message openApiInfoSchema openApiJson of
        Inl e \<Rightarrow> Inl e
      | Inr openApi \<Rightarrow>
     (case schema_parse zod_message projectListSchema projectsJson of
        Inl e \<Rightarrow> Inl e
      | Inr projects \<Rightarrow>
     (case schema_parse zod_message configResponseSchema
             (object_literal
                [(''projects'', Some projects),
                 (''meta'', Some (object_literal
                    [(''title'', optional_get (json_get openApi ''info'') ''title''),
                     (''version'', optional_get (json_get openApi ''info'') ''version''),
                     (''description'', optional_get (json_get openApi ''info'') ''description''),
                     (''servers'', Some (JArr
                        (map (\<lambda>server. case json_get server ''url'' of Some u \<Rightarrow> u | None \<Rightarrow> JNull)
                           (case json_get openApi ''servers'' of
                              Some (JArr servers) \<Rightarrow> servers
                            | _ \<Rightarrow> [])))),
                     (''fetchedAt'', Some (JStr now))]))]) of
        Inl e \<Rightarrow> Inl e
      | Inr payload \<Rightarrow>
          Inr \<lparr>reply_status = 200, reply_body = payload,
               reply_headers = [(''cache-control'', ''no-store'')]\<rparr>)))))"

text \<open>
  The handler. Its inputs are the two environment variables, the network (\<open>fetch\<close>, from
  URL and headers to a response or a throw) and the clock (\<open>now\<close>, the ISO string of the
  current time). The error written to the console is not modelled.
\<close>

definition api_config_handler ::
  "(zod_issue list \<Rightarrow> string) \<Rightarrow> string option \<Rightarrow> string option \<Rightarrow>
   (string \<Rightarrow> (string \<times> string) list \<Rightarrow> thrown + http_response) \<Rightarrow> string \<Rightarrow> reply"
where
  "api_config_handler zod_message DOKPLOY_BASE_URL DOKPLOY_API_KEY fetch now =
     (let body =
        (let baseUrl = nullish DOKPLOY_BASE_URL '''';
             apiKey = nullish DOKPLOY_API_KEY ''''
         in case sanitizeBaseUrl baseUrl of
              None \<Rightarrow> Inr (error_reply ''Missing DOKPLOY_BASE_URL environment variable.'')
            | Some sanitizedBase \<Rightarrow>
                if \<not> truthy_string sanitizedBase
                then Inr (error_reply ''Missing DOKPLOY_BASE_URL environment variable.'')
                else
                (let headers = request_headers apiKey in
                 case promise_all (fetch (openApiUrl sanitizedBase) headers)
                                  (fetch (projectsUrl sanitizedBase) headers) of
                   Inl e \<Rightarrow> Inl e
                 | Inr (openApiResponse, projectsResponse) \<Rightarrow>
                     if \<not> ok openApiResponse
                     then Inl (upstream_error ''OpenAPI document'' openApiResponse)
                     else if \<not> ok projectsResponse
                     then Inl (upstream_error ''projects'' projectsResponse)
                     else build_payload zod_message now openApiResponse projectsResponse))
      in case body of
           Inl error \<Rightarrow> error_reply (error_message error)
         | Inr response \<Rightarrow> response)"

section \<open>Auxiliary lemmas\<close>

lemma forEach_append:
  assumes "\<And>x i s. f x i s = s @ g x i"
  shows "forEach f xs i s = s @ concat (map (\<lambda>(k, x). g x k) (enumerate i xs))"
  by (induction xs arbitrary: i s) (simp_all add: assms)

lemma forEach_append_const:
  assumes "\<And>x i s. f x i s = s @ g x"
  shows "forEach f xs i s = s @ concat (map g xs)"
  by (induction xs arbitrary: i s) (simp_all add: assms)

lemma visit_section_eq:
  "visit_section toString p (project_name p) (project_key p i) env sec j entries = entries @ section_entries toString p i env sec"
proof (cases "env_get env (key sec)")
  case None
  then show ?thesis by (simp add: visit_section_def section_entries_def)
next
  case (Some rs)
  have "forEach (\<lambda>r resIndex acc. acc @ [make_entry toString p (project_name p) (project_key p i) (name_e env) sec r resIndex]) rs 0 entries
     = entries @ concat (map (\<lambda>(k, r). [make_entry toString p (project_name p) (project_key p i) (name_e env) sec r k]) (enumerate 0 rs))"
    by (rule forEach_append) simp
  also have "concat (map (\<lambda>(k, r). [make_entry toString p (project_name p) (project_key p i) (name_e env) sec r k]) (enumerate 0 rs))
     = map (\<lambda>(k, r). make_entry toString p (project_name p) (project_key p i) (name_e env) sec r k) (enumerate 0 rs)"
    by (induction rs rule: rev_induct) (simp_all add: enumerate_append_eq)
  finally show ?thesis using Some by (simp add: visit_section_def section_entries_def)
qed

lemma visit_environment_eq:
  "visit_environment toString p (project_name p) (project_key p i) env j entries =
     entries @ concat (map (section_entries toString p i env) resourceSections)"
  unfolding visit_environment_def
  by (rule forEach_append_const) (rule visit_section_eq)

lemma visit_project_eq: "visit_project toString p i entries = entries @ project_entries toString p i"
  unfolding visit_project_def project_entries_def
  by (rule forEach_append_const) (rule visit_environment_eq)

lemma collect_entries_eq:
  "collect_entries toString ps = concat (map (\<lambda>(i, p). project_entries toString p i) (enumerate 0 ps))"
proof -
  have "forEach (visit_project toString) ps 0 [] = [] @ concat (map (\<lambda>(i, p). project_entries toString p i) (enumerate 0 ps))"
    by (rule forEach_append) (rule visit_project_eq)
  then show ?thesis by (simp add: collect_entries_def)
qed

lemma in_collect_entries:
  "e \<in> set (collect_entries toString ps) \<longleftrightarrow>
     (\<exists>i env sec rs k. i < length ps \<and> env \<in> set (nullish (environments (ps ! i)) []) \<and>
        sec \<in> set resourceSections \<and> env_get env (key sec) = Some rs \<and> k < length rs \<and>
        e = make_entry toString (ps ! i) (project_name (ps ! i)) (project_key (ps ! i) i) (name_e env) sec (rs ! k) k)"
  (is "?L \<longleftrightarrow> ?R")
proof
  assume ?L
  then obtain i p where ip: "(i, p) \<in> set (enumerate 0 ps)" and e: "e \<in> set (project_entries toString p i)"
    by (auto simp: collect_entries_eq)
  from ip have i: "i < length ps" and p: "p = ps ! i" by (auto simp: in_set_enumerate_eq)
  from e obtain env sec where env: "env \<in> set (nullish (environments p) [])"
    and sec: "sec \<in> set resourceSections" and es: "e \<in> set (section_entries toString p i env sec)"
    by (auto simp: project_entries_def)
  from es obtain rs where rs: "env_get env (key sec) = Some rs"
    by (cases "env_get env (key sec)") (auto simp: section_entries_def)
  from es rs have em: "e \<in> set (map (\<lambda>(k, r). make_entry toString p (project_name p) (project_key p i) (name_e env) sec r k) (enumerate 0 rs))"
    by (simp add: section_entries_def)
  from em obtain k where "k < length rs" 
    "e = make_entry toString p (project_name p) (project_key p i) (name_e env) sec (rs ! k) k"
    by (auto simp: in_set_enumerate_eq)
  with i p env sec rs show ?R by blast
next
  assume ?R
  then obtain i env sec rs k where i: "i < length ps" 
    and env: "env \<in> set (nullish (environments (ps ! i)) [])"
    and sec: "sec \<in> set resourceSections" and rs: "env_get env (key sec) = Some rs" 
    and k: "k < length rs"
    and e: "e = make_entry toString (ps ! i) (project_name (ps ! i)) (project_key (ps ! i) i) (name_e env) sec (rs ! k) k"
    by blast
  from k have "(k, rs ! k) \<in> set (enumerate 0 rs)" by (simp add: in_set_enumerate_eq)
  then have "e \<in> set (section_entries toString (ps ! i) i env sec)"
    using rs e by (force simp: section_entries_def)
  then have "e \<in> set (project_entries toString (ps ! i) i)"
    using env sec by (auto simp: project_entries_def)
  moreover from i have "(i, ps ! i) \<in> set (enumerate 0 ps)" by (simp add: in_set_enumerate_eq)
  ultimately show ?L by (force simp: collect_entries_eq)
qed

lemma mset_insert_by: "mset (insert_by c x ys) = add_mset x (mset ys)"
  by (induction ys) simp_all

lemma mset_array_sort: "mset (array_sort c xs) = mset xs"
  by (induction xs) (simp_all add: array_sort_def mset_insert_by)

lemma set_array_sort: "set (array_sort c xs) = set xs"
  using mset_array_sort [of c xs] by (metis set_mset_mset)

lemma set_flattenProjects: "set (flattenProjects toString lc ps) = set (collect_entries toString ps)"
  by (simp add: flattenProjects_def set_array_sort)



















lemma in_flattenProjects:
  "e \<in> set (flattenProjects toString lc ps) \<longleftrightarrow>
     (\<exists>i env sec k r. resource_at ps i env sec k r \<and>
        e = make_entry toString (ps ! i) (project_name (ps ! i)) (project_key (ps ! i) i) (name_e env) sec r k)"
  (is "?L \<longleftrightarrow> ?R")
proof
  assume ?L
  then obtain i env sec rs k where "i < length ps" "env \<in> set (nullish (environments (ps ! i)) [])"
    "sec \<in> set resourceSections" "env_get env (key sec) = Some rs" "k < length rs"
    "e = make_entry toString (ps ! i) (project_name (ps ! i)) (project_key (ps ! i) i) (name_e env) sec (rs ! k) k"
    unfolding set_flattenProjects in_collect_entries by blast
  then have "resource_at ps i env sec k (rs ! k)" by (simp add: resource_at_def)
  with \<open>e = _\<close> show ?R by blast
next
  assume ?R
  then obtain i env sec k r where at: "resource_at ps i env sec k r"
    and e: "e = make_entry toString (ps ! i) (project_name (ps ! i)) (project_key (ps ! i) i) (name_e env) sec r k"
    by blast
  from at obtain rs where "env_get env (key sec) = Some rs" "k < length rs" "r = rs ! k"
    by (cases "env_get env (key sec)") (auto simp: resource_at_def)
  with at e show ?L
    unfolding set_flattenProjects in_collect_entries resource_at_def by blast
qed

lemma id_entry_make_entry:
  "id_entry (make_entry toString p (project_name p) pk en sec r k) = spec_entry_id p sec k r"
  by (simp add: make_entry_def spec_entry_id_def project_name_def nullish_def split: option.splits)









lemmas flatten_eval = flattenProjects_def collect_entries_def visit_project_def visit_environment_def
  visit_section_def make_entry_def resource_urls_def resourceSections_def env_get_def
  project_name_def project_key_def nullish_def array_sort_def compare_entries_def
  blank_resource_def blank_environment_def blank_project_def nat_to_string_def toString36_def
  radix_string.simps digit_char_def List.map_filter_def

lemma two_apps_ids:
  fixes p :: project and env :: environment and r1 r2 :: resource
  assumes h: "environments p = Some [env] \<and> applications env = Some [r1, r2] \<and>
       compose env = None \<and> postgres env = None \<and> mysql env = None \<and> mariadb env = None \<and>
       mongo env = None \<and> redis env = None \<and>
       composeId r1 = None \<and> applicationId r1 = None \<and> databaseId r1 = None \<and>
       composeId r2 = None \<and> applicationId r2 = None \<and> databaseId r2 = None"
  shows "length (flattenProjects toString lc [p]) = 2 \<and> distinct (map id_entry (flattenProjects toString lc [p]))"
proof -
  let ?base = "nullish (projectId p) (project_name p)"
  have col: "map id_entry (collect_entries toString [p]) =
      [?base @ ''-applications-0'', ?base @ ''-applications-1'']"
    using h
    by (simp add: collect_entries_def visit_project_def visit_environment_def visit_section_def
        make_entry_def resourceSections_def env_get_def nullish_def nat_to_string_def
        radix_string.simps digit_char_def)
  have ms: "mset (map id_entry (flattenProjects toString lc [p])) = mset (map id_entry (collect_entries toString [p]))"
    by (simp add: flattenProjects_def mset_array_sort)
  from col have "distinct (map id_entry (collect_entries toString [p]))" by simp
  with ms have d: "distinct (map id_entry (flattenProjects toString lc [p]))"
    by (metis mset_eq_imp_distinct_iff)
  from ms have "length (map id_entry (flattenProjects toString lc [p])) = length (map id_entry (collect_entries toString [p]))"
    by (metis size_mset)
  with col have "length (flattenProjects toString lc [p]) = 2" by simp
  with d show ?thesis by simp
qed

lemma trim_empty_iff: "trim s = [] \<longleftrightarrow> (\<forall>c\<in>set s. is_whitespace c)"
proof -
  let ?d = "dropWhile is_whitespace s"
  have "trim s = [] \<longleftrightarrow> (\<forall>c\<in>set ?d. is_whitespace c)"
    unfolding trim_def by (simp only: rev_is_Nil_conv dropWhile_eq_Nil_conv set_rev)
  also have "\<dots> \<longleftrightarrow> ?d = []"
  proof
    assume all: "\<forall>c\<in>set ?d. is_whitespace c"
    show "?d = []"
    proof (rule ccontr)
      assume ne: "?d \<noteq> []"
      then have "\<not> is_whitespace (hd ?d)" by (rule hd_dropWhile)
      moreover from ne have "hd ?d \<in> set ?d" by (rule hd_in_set)
      ultimately show False using all by blast
    qed
  next
    assume a: "?d = []"
    show "\<forall>c\<in>set ?d. is_whitespace c" unfolding a by simp
  qed
  also have "\<dots> \<longleftrightarrow> (\<forall>c\<in>set s. is_whitespace c)"
    by simp
  finally show ?thesis .
qed

lemma trim_decompose:
  "\<exists>pre post. s = pre @ trim s @ post \<and> (\<forall>c\<in>set pre. is_whitespace c) \<and>
     (\<forall>c\<in>set post. is_whitespace c)"
proof -
  let ?d = "dropWhile is_whitespace s"
  let ?post = "rev (takeWhile is_whitespace (rev ?d))"
  have "rev ?d = takeWhile is_whitespace (rev ?d) @ dropWhile is_whitespace (rev ?d)" by simp
  then have "rev (rev ?d) = rev (takeWhile is_whitespace (rev ?d) @ dropWhile is_whitespace (rev ?d))"
    by (rule arg_cong)
  then have "?d = rev (dropWhile is_whitespace (rev ?d)) @ ?post"
    by (simp only: rev_append rev_rev_ident)
  then have "?d = trim s @ ?post" by (simp only: trim_def)
  then have "s = takeWhile is_whitespace s @ trim s @ ?post"
    by (metis takeWhile_dropWhile_id)
  moreover have "\<forall>c\<in>set (takeWhile is_whitespace s). is_whitespace c"
    by (auto dest: set_takeWhileD)
  moreover have "\<forall>c\<in>set ?post. is_whitespace c"
    by (auto dest: set_takeWhileD)
  ultimately show ?thesis by blast
qed

lemma trim_ends:
  assumes "trim s \<noteq> []"
  shows "\<not> is_whitespace (hd (trim s)) \<and> \<not> is_whitespace (last (trim s))"
proof -
  let ?d = "dropWhile is_whitespace s"
  let ?e = "dropWhile is_whitespace (rev ?d)"
  from assms have e: "?e \<noteq> []" by (simp add: trim_def)
  then have "\<not> is_whitespace (hd ?e)" by (rule hd_dropWhile)
  with e have l: "\<not> is_whitespace (last (trim s))" by (simp add: trim_def last_rev)
  from e have d: "?d \<noteq> []" by (cases "?d = []") simp_all
  then have hd: "\<not> is_whitespace (hd ?d)" by (rule hd_dropWhile)
  have "trim s = rev ?e" by (simp add: trim_def)
  have "\<exists>ws. rev ?d = ws @ ?e" by (metis takeWhile_dropWhile_id)
  then obtain ws where "rev ?d = ws @ ?e" by blast
  then have "?d = rev ?e @ rev ws" by (metis rev_append rev_rev_ident)
  moreover from e have "hd (rev ?e @ rev ws) = hd (rev ?e)" by (intro hd_append2) simp
  ultimately have "hd ?d = hd (rev ?e)" by (rule ssubst)
  then have "hd (trim s) = hd ?d" by (simp only: trim_def)
  with hd have "\<not> is_whitespace (hd (trim s))" by simp
  with l show ?thesis by simp
qed

lemma api_pattern_here_iff:
  "api_pattern_here s \<longleftrightarrow> (\<exists>post. s = ''/api'' @ post \<and> (post = [] \<or> hd post = CHR ''/''))"
proof
  assume "api_pattern_here s"
  then have "take 4 s = ''/api''" and p: "drop 4 s = [] \<or> hd (drop 4 s) = CHR ''/''"
    by (simp_all add: api_pattern_here_def)
  then have "s = ''/api'' @ drop 4 s" by (metis append_take_drop_id)
  with p show "\<exists>post. s = ''/api'' @ post \<and> (post = [] \<or> hd post = CHR ''/'')" by blast
next
  assume "\<exists>post. s = ''/api'' @ post \<and> (post = [] \<or> hd post = CHR ''/'')"
  then show "api_pattern_here s" by (auto simp: api_pattern_here_def)
qed

lemma api_pattern_test_iff: "api_pattern_test s \<longleftrightarrow> api_pattern_occurs s"
proof (induction s)
  case Nil
  then show ?case by (simp add: api_pattern_occurs_def)
next
  case (Cons c cs)
  have "api_pattern_occurs (c # cs) \<longleftrightarrow> api_pattern_here (c # cs) \<or> api_pattern_occurs cs"
  proof
    assume "api_pattern_occurs (c # cs)"
    then obtain pre post where eq: "c # cs = pre @ ''/api'' @ post"
      and p: "post = [] \<or> hd post = CHR ''/''"
      unfolding api_pattern_occurs_def by blast
    show "api_pattern_here (c # cs) \<or> api_pattern_occurs cs"
    proof (cases pre)
      case Nil
      with eq p have "api_pattern_here (c # cs)" unfolding api_pattern_here_iff by auto
      then show ?thesis ..
    next
      case (Cons d ds)
      with eq have "cs = ds @ ''/api'' @ post" by simp
      with p have "api_pattern_occurs cs" unfolding api_pattern_occurs_def by blast
      then show ?thesis ..
    qed
  next
    assume "api_pattern_here (c # cs) \<or> api_pattern_occurs cs"
    then show "api_pattern_occurs (c # cs)"
    proof
      assume "api_pattern_here (c # cs)"
      then obtain post where "c # cs = [] @ ''/api'' @ post" "post = [] \<or> hd post = CHR ''/''"
        unfolding api_pattern_here_iff by auto
      then show ?thesis unfolding api_pattern_occurs_def by blast
    next
      assume "api_pattern_occurs cs"
      then obtain pre post where "cs = pre @ ''/api'' @ post" "post = [] \<or> hd post = CHR ''/''"
        unfolding api_pattern_occurs_def by blast
      then have "c # cs = (c # pre) @ ''/api'' @ post" by simp
      with \<open>post = [] \<or> hd post = CHR ''/''\<close> show ?thesis
        unfolding api_pattern_occurs_def by blast
    qed
  qed
  with Cons show ?case by simp
qed


lemma sanitizeBaseUrl_nonempty: "sanitizeBaseUrl s = Some b \<Longrightarrow> b \<noteq> []"
  by (auto simp: sanitizeBaseUrl_def Let_def split: if_splits)

lemmas baseurl_eval = sanitizeBaseUrl_def trim_def is_whitespace_def strip_trailing_slash_def
  api_pattern_here_def truthy_string_def

lemma parse_Inl_nonempty: "parse s p v = Inl is \<Longrightarrow> is \<noteq> []"
proof (induction s p v arbitrary: "is" rule: parse.induct)
  case (5 s p v)
  then show ?case
    by (auto simp: Let_def split: option.splits json.splits if_splits)
next
  case (6 shape mode p v)
  then show ?case
    by (auto simp: Let_def split: option.splits json.splits if_splits)
qed (auto split: option.splits json.splits if_splits)

lemma issues_of_member:
  assumes "Inl is \<in> set rs" and "is \<noteq> []"
  shows "issues_of rs \<noteq> []"
  using assms by (induction rs) (auto simp: issues_of_def)

lemma object_field_failure:
  assumes mem: "(k, s) \<in> set shape"
    and fail: "parse s (p @ [Key k]) (map_of kvs k) = Inl is"
  shows "\<exists>js. parse (ZObject shape mode) p (Some (JObj kvs)) = Inl js"
proof -
  let ?fs = "map (\<lambda>(k, s). (k, parse s (p @ [Key k]) (map_of kvs k))) shape"
  from mem fail have "(k, Inl is) \<in> set ?fs" by force
  then have "Inl is \<in> set (map snd ?fs)" by force
  moreover from fail have "is \<noteq> []" by (rule parse_Inl_nonempty)
  ultimately have "issues_of (map snd ?fs) \<noteq> []" by (rule issues_of_member)
  then show ?thesis by (simp add: Let_def)
qed

lemma parse_object_result:
  assumes "parse (ZObject shape mode) p (Some (JObj kvs)) = Inr res"
  shows "res = Some (JObj
           (parsed_fields (map (\<lambda>(k, s). (k, parse s (p @ [Key k]) (map_of kvs k))) shape) @
            (case mode of Passthrough \<Rightarrow> extra_fields shape kvs | Strip \<Rightarrow> [])))"
  using assms by (simp add: Let_def split: if_splits)

lemma parsed_fields_keys: "fst ` set (parsed_fields fs) \<subseteq> fst ` set fs"
  by (force simp: parsed_fields_def List.map_filter_def split: sum.splits option.splits)

lemma map_of_parsed_fields_None:
  assumes "k \<notin> fst ` set shape"
  shows "map_of (parsed_fields (map (\<lambda>(k, s). (k, f k s)) shape)) k = None"
proof -
  have "fst ` set (map (\<lambda>(k, s). (k, f k s)) shape) = fst ` set shape" by force
  with parsed_fields_keys [of "map (\<lambda>(k, s). (k, f k s)) shape"] assms
  have "k \<notin> fst ` set (parsed_fields (map (\<lambda>(k, s). (k, f k s)) shape))" by blast
  then show ?thesis by (simp add: map_of_eq_None_iff)
qed

lemma map_of_extra_fields:
  "k \<notin> fst ` set shape \<Longrightarrow> map_of (extra_fields shape kvs) k = map_of kvs k"
  by (induction kvs) (force simp: extra_fields_def)+

lemma passthrough_keeps:
  assumes "parse (ZObject shape Passthrough) p (Some (JObj kvs)) = Inr res"
    and "k \<notin> fst ` set shape"
  shows "\<exists>out. res = Some (JObj out) \<and> map_of out k = map_of kvs k"
proof -
  let ?known = "parsed_fields (map (\<lambda>(k, s). (k, parse s (p @ [Key k]) (map_of kvs k))) shape)"
  have "res = Some (JObj (?known @ extra_fields shape kvs))"
    using parse_object_result [OF assms(1)] by simp
  moreover have "map_of (?known @ extra_fields shape kvs) k = map_of kvs k"
    using assms(2) by (simp add: map_of_parsed_fields_None map_of_extra_fields map_add_def)
  ultimately show ?thesis by blast
qed

lemma strip_drops:
  assumes "parse (ZObject shape Strip) p (Some (JObj kvs)) = Inr res"
    and "k \<notin> fst ` set shape"
  shows "\<exists>out. res = Some (JObj out) \<and> map_of out k = None"
proof -
  let ?known = "parsed_fields (map (\<lambda>(k, s). (k, parse s (p @ [Key k]) (map_of kvs k))) shape)"
  have "res = Some (JObj ?known)"
    using parse_object_result [OF assms(1)] by simp
  moreover have "map_of ?known k = None"
    using assms(2) by (simp add: map_of_parsed_fields_None)
  ultimately show ?thesis by blast
qed

lemmas schema_defs = domainSchema_def resourceSchema_def environmentSchema_def projectSchema_def
  projectListSchema_def openApiInfoSchema_def configResponseSchema_def

lemmas parse_eval = issues_of_def parsed_items_def parsed_fields_def extra_fields_def
  List.map_filter_def Let_def

text \<open>
  What \<open>sanitizeBaseUrl\<close> computes: null exactly for the inputs that are empty or
  all white space, and the handler then answers with the configuration error. Otherwise
  the input is white space, a core that neither starts nor ends with white space, and
  white space; one trailing slash of the core is removed, and \<open>/api\<close> is appended
  exactly when the pattern does not occur in what is left.
\<close>

lemma sanitizeBaseUrl_by_pattern:
  "(sanitizeBaseUrl s = None \<longleftrightarrow> (\<forall>c\<in>set s. is_whitespace c)) \<and>
   (sanitizeBaseUrl (nullish env_base '''') = None \<longrightarrow>
      api_config_handler zod_message env_base env_key fetch now =
        \<lparr>reply_status = 500,
         reply_body = JObj [(''error'', JStr ''Missing DOKPLOY_BASE_URL environment variable.'')],
         reply_headers = []\<rparr>) \<and>
   (\<exists>pre post. s = pre @ trim s @ post \<and> (\<forall>c\<in>set pre. is_whitespace c) \<and>
      (\<forall>c\<in>set post. is_whitespace c)) \<and>
   (trim s \<noteq> [] \<longrightarrow>
      \<not> is_whitespace (hd (trim s)) \<and> \<not> is_whitespace (last (trim s)) \<and>
      sanitizeBaseUrl s =
        Some (let n = (if last (trim s) = CHR ''/'' then butlast (trim s) else trim s)
              in if api_pattern_occurs n then n else n @ ''/api'')) \<and>
   sanitizeBaseUrl ''https://host/'' = Some ''https://host/api'' \<and>
   sanitizeBaseUrl ''https://host/api/'' = Some ''https://host/api''"
proof (intro conjI impI)
  show "sanitizeBaseUrl s = None \<longleftrightarrow> (\<forall>c\<in>set s. is_whitespace c)"
    using trim_empty_iff [of s] by (simp add: sanitizeBaseUrl_def truthy_string_def Let_def)
next
  assume "sanitizeBaseUrl (nullish env_base '''') = None"
  then show "api_config_handler zod_message env_base env_key fetch now =
        \<lparr>reply_status = 500,
         reply_body = JObj [(''error'', JStr ''Missing DOKPLOY_BASE_URL environment variable.'')],
         reply_headers = []\<rparr>"
    by (simp add: api_config_handler_def error_reply_def)
next
  show "\<exists>pre post. s = pre @ trim s @ post \<and> (\<forall>c\<in>set pre. is_whitespace c) \<and>
      (\<forall>c\<in>set post. is_whitespace c)"
    by (rule trim_decompose)
next
  assume ne: "trim s \<noteq> []"
  then show "\<not> is_whitespace (hd (trim s))" using trim_ends by blast
  from ne show "\<not> is_whitespace (last (trim s))" using trim_ends by blast
  from ne show "sanitizeBaseUrl s =
        Some (let n = (if last (trim s) = CHR ''/'' then butlast (trim s) else trim s)
              in if api_pattern_occurs n then n else n @ ''/api'')"
    by (simp add: sanitizeBaseUrl_def truthy_string_def strip_trailing_slash_def Let_def
        api_pattern_test_iff)
next
  show "sanitizeBaseUrl ''https://host/'' = Some ''https://host/api''"
    by (simp add: baseurl_eval)
next
  show "sanitizeBaseUrl ''https://host/api/'' = Some ''https://host/api''"
    by (simp add: baseurl_eval)
qed

section \<open>Properties of the dashboard\<close>

subsection \<open>URL resolution\<close>

text \<open>
  C1. \<open>resolveDomainUrl\<close> returns null for an absent domain and for an empty host.
  Otherwise it returns scheme, \<open>://\<close>, host, port segment and path segment, where the
  scheme is https exactly when the https flag is true, the port segment is a colon and
  the port as the template literal prints it (\<open>toString\<close>, whatever that prints)
  exactly when the port is present and not zero, and the path segment is the path exactly
  when it is present and not the one-character string \<open>/\<close>.
\<close>

theorem resolveDomainUrl_shape:
  "resolveDomainUrl toString None = None \<and>
   resolveDomainUrl toString (Some dm) =
     (if host dm = [] then None
      else Some ((if https dm = Some True then ''https'' else ''http'') @ ''://'' @ host dm @
                 (if port dm = None \<or> port dm = Some (Finite 0) then []
                  else '':'' @ toString (the (port dm))) @
                 (if path dm = None \<or> path dm = Some ''/'' then [] else the (path dm))))"
  by (auto simp: resolveDomainUrl_def truthy_string_def truthy_number_def Let_def
           split: option.splits)

theorem resolveDomainUrl_shape_witness:
  "resolveDomainUrl integer_rendering (Some \<lparr>domainId = None, host = ''a.com'',
      https = Some True, port = Some (Finite 8080), path = Some ''/x'', serviceName = None\<rparr>) =
     Some ''https://a.com:8080/x'' \<and>
   resolveDomainUrl integer_rendering (Some \<lparr>domainId = None, host = ''a.com'',
      https = None, port = Some (Finite 0), path = Some ''/'', serviceName = None\<rparr>) =
     Some ''http://a.com'' \<and>
   resolveDomainUrl integer_rendering (Some \<lparr>domainId = None, host = '''', https = None,
      port = None, path = None, serviceName = None\<rparr>) = None"
  using resolveDomainUrl_shape [where toString = integer_rendering and
      dm = "\<lparr>domainId = None, host = ''a.com'', https = Some True,
            port = Some (Finite 8080), path = Some ''/x'', serviceName = None\<rparr>"]
    resolveDomainUrl_shape [where toString = integer_rendering and
      dm = "\<lparr>domainId = None, host = ''a.com'', https = None,
            port = Some (Finite 0), path = Some ''/'', serviceName = None\<rparr>"]
    resolveDomainUrl_shape [where toString = integer_rendering and
      dm = "\<lparr>domainId = None, host = '''', https = None,
            port = None, path = None, serviceName = None\<rparr>"]
  by (simp add: integer_rendering_def nat_to_string_def radix_string.simps digit_char_def)

subsection \<open>Flattening\<close>

text \<open>
  C3. Every emitted entry belongs to a resource of the input and carries the id the
  specification gives it (the first present of composeId, applicationId, databaseId, else
  the composite of project id or name, category key and position), and every resource of
  the input has an entry with that id. For one project with one environment that holds two
  applications without ids and nothing else, the two ids are different. The ids are
  determined by the input: \<open>flattenProjects\<close> is a function of it.
\<close>

theorem flattenProjects_ids:
  "(\<forall>e\<in>set (flattenProjects toString lc ps). \<exists>i env sec k r.
       resource_at ps i env sec k r \<and> id_entry e = spec_entry_id (ps ! i) sec k r) \<and>
   (\<forall>i env sec k r. resource_at ps i env sec k r \<longrightarrow>
       (\<exists>e\<in>set (flattenProjects toString lc ps). id_entry e = spec_entry_id (ps ! i) sec k r)) \<and>
   (\<forall>p env r1 r2.
       environments p = Some [env] \<and> applications env = Some [r1, r2] \<and>
       compose env = None \<and> postgres env = None \<and> mysql env = None \<and> mariadb env = None \<and>
       mongo env = None \<and> redis env = None \<and>
       composeId r1 = None \<and> applicationId r1 = None \<and> databaseId r1 = None \<and>
       composeId r2 = None \<and> applicationId r2 = None \<and> databaseId r2 = None \<longrightarrow>
       length (flattenProjects toString lc [p]) = 2 \<and> distinct (map id_entry (flattenProjects toString lc [p])))"
proof (intro conjI ballI allI impI)
  fix e assume "e \<in> set (flattenProjects toString lc ps)"
  then obtain i env sec k r where at: "resource_at ps i env sec k r"
    and e: "e = make_entry toString (ps ! i) (project_name (ps ! i)) (project_key (ps ! i) i) (name_e env) sec r k"
    unfolding in_flattenProjects by blast
  from e have "id_entry e = spec_entry_id (ps ! i) sec k r" by (simp add: id_entry_make_entry)
  with at show "\<exists>i env sec k r. resource_at ps i env sec k r \<and> id_entry e = spec_entry_id (ps ! i) sec k r"
    by blast
next
  fix i env sec k r assume at: "resource_at ps i env sec k r"
  let ?e = "make_entry toString (ps ! i) (project_name (ps ! i)) (project_key (ps ! i) i) (name_e env) sec r k"
  from at have "?e \<in> set (flattenProjects toString lc ps)" unfolding in_flattenProjects by blast
  moreover have "id_entry ?e = spec_entry_id (ps ! i) sec k r" by (rule id_entry_make_entry)
  ultimately show "\<exists>e\<in>set (flattenProjects toString lc ps). id_entry e = spec_entry_id (ps ! i) sec k r"
    by blast
next
  fix p :: project and env :: environment and r1 r2 :: resource
  assume "environments p = Some [env] \<and> applications env = Some [r1, r2] \<and>
       compose env = None \<and> postgres env = None \<and> mysql env = None \<and> mariadb env = None \<and>
       mongo env = None \<and> redis env = None \<and>
       composeId r1 = None \<and> applicationId r1 = None \<and> databaseId r1 = None \<and>
       composeId r2 = None \<and> applicationId r2 = None \<and> databaseId r2 = None"
  then have both: "length (flattenProjects toString lc [p]) = 2 \<and> distinct (map id_entry (flattenProjects toString lc [p]))"
    by (rule two_apps_ids)
  from both show "length (flattenProjects toString lc [p]) = 2" by simp
  from both show "distinct (map id_entry (flattenProjects toString lc [p]))" by simp
qed

theorem flattenProjects_ids_witness:
  "resource_at [two_apps_example] 0
     (blank_environment\<lparr>applications := Some
          [blank_resource\<lparr>name_r := Some ''web''\<rparr>, blank_resource\<lparr>name_r := Some ''api''\<rparr>]\<rparr>)
     \<lparr>key = ''applications'', label = ''Applications''\<rparr> 1 (blank_resource\<lparr>name_r := Some ''api''\<rparr>) \<and>
   map id_entry (flattenProjects integer_rendering codeunit_compare [two_apps_example]) =
     [''shop-applications-1'', ''shop-applications-0''] \<and>
   length (flattenProjects integer_rendering codeunit_compare [two_apps_example]) = 2 \<and>
   distinct (map id_entry (flattenProjects integer_rendering codeunit_compare [two_apps_example]))"
proof -
  have ev: "map id_entry (flattenProjects integer_rendering codeunit_compare [two_apps_example]) =
     [''shop-applications-1'', ''shop-applications-0'']"
    by (simp add: two_apps_example_def flatten_eval)
  have at: "resource_at [two_apps_example] 0
     (blank_environment\<lparr>applications := Some
          [blank_resource\<lparr>name_r := Some ''web''\<rparr>, blank_resource\<lparr>name_r := Some ''api''\<rparr>]\<rparr>)
     \<lparr>key = ''applications'', label = ''Applications''\<rparr> 1 (blank_resource\<lparr>name_r := Some ''api''\<rparr>)"
    by (simp add: resource_at_def two_apps_example_def flatten_eval)
  have "length (flattenProjects integer_rendering codeunit_compare [two_apps_example]) = 2 \<and>
        distinct (map id_entry (flattenProjects integer_rendering codeunit_compare [two_apps_example]))"
    using flattenProjects_ids [where toString = integer_rendering and lc = codeunit_compare
        and ps = "[two_apps_example]"]
    by (simp add: two_apps_example_def blank_project_def blank_environment_def blank_resource_def)
  with ev at show ?thesis by simp
qed






text \<open>
  C10. Ids are not unique across the output. One project without projectId and name, with
  two environments that each hold one application without ids: the two entries differ
  (in their environment name) and carry the same id, for every collation; the fallback
  key does not include the environment.
\<close>

theorem flattenProjects_duplicate_ids:
  "length (flattenProjects toString lc duplicate_id_example) = 2 \<and>
   flattenProjects toString lc duplicate_id_example ! 0 \<noteq>
     flattenProjects toString lc duplicate_id_example ! 1 \<and>
   id_entry (flattenProjects toString lc duplicate_id_example ! 0) = ''Unnamed project-applications-0'' \<and>
   id_entry (flattenProjects toString lc duplicate_id_example ! 1) = ''Unnamed project-applications-0''"
  by (simp add: duplicate_id_example_def flatten_eval)

subsection \<open>Pinned entries\<close>

text \<open>
  C8. Pinning an entry that is not pinned and then unpinning it gives back the pin list as
  it was, and with it the same pinned and regular entries in the same order.
\<close>

theorem togglePin_round_trip:
  assumes "entryId \<notin> set prev"
  shows "togglePin entryId (togglePin entryId prev) = prev \<and>
         pinnedEntries entries (togglePin entryId (togglePin entryId prev)) =
           pinnedEntries entries prev \<and>
         regularEntries entries (togglePin entryId (togglePin entryId prev)) =
           regularEntries entries prev"
proof -
  from assms have "filter (\<lambda>key. key \<noteq> entryId) prev = prev"
    by (induction prev) auto
  with assms have "togglePin entryId (togglePin entryId prev) = prev"
    by (simp add: togglePin_def)
  then show ?thesis by simp
qed

theorem togglePin_round_trip_witness:
  "''c1'' \<notin> set [''a1'', ''b2''] \<and>
   togglePin ''c1'' [''a1'', ''b2''] = [''a1'', ''b2'', ''c1''] \<and>
   togglePin ''c1'' (togglePin ''c1'' [''a1'', ''b2'']) = [''a1'', ''b2'']"
proof -
  have n: "''c1'' \<notin> set [''a1'', ''b2'']" by simp
  have "togglePin ''c1'' [''a1'', ''b2''] = [''a1'', ''b2'', ''c1'']"
    by (simp add: togglePin_def)
  with n togglePin_round_trip [OF n, of "[]"] show ?thesis by simp
qed

text \<open>
  C9. The initializer of the pin list never throws: it returns a list whatever the
  storage holds and whatever \<open>JSON.parse\<close> does. Where the stored string is rejected by
  \<open>JSON.parse\<close>, or parses to a value that is not an array, the result is the empty
  list.
\<close>

theorem init_pinnedResources_total:
  "(\<exists>pins. init_pinnedResources JSON_parse window = Inr pins) \<and>
   (getItem PIN_STORAGE_KEY = Inr (Some stored) \<and>
    ((\<exists>e. JSON_parse stored = Inl e) \<or> (\<exists>v. JSON_parse stored = Inr v \<and> \<not> isArray v)) \<longrightarrow>
    init_pinnedResources JSON_parse (Some getItem) = Inr [])"
proof (intro conjI impI)
  show "\<exists>pins. init_pinnedResources JSON_parse window = Inr pins"
    by (simp add: init_pinnedResources_def try_catch_def split: option.splits sum.splits)
next
  assume "getItem PIN_STORAGE_KEY = Inr (Some stored) \<and>
    ((\<exists>e. JSON_parse stored = Inl e) \<or> (\<exists>v. JSON_parse stored = Inr v \<and> \<not> isArray v))"
  then show "init_pinnedResources JSON_parse (Some getItem) = Inr []"
    by (auto simp: init_pinnedResources_def try_catch_def)
qed

theorem init_pinnedResources_total_witness:
  "(\<lambda>k. Inr (Some ''{not json'')) PIN_STORAGE_KEY = Inr (Some ''{not json'') \<and>
   (\<lambda>s. if s = ''{}'' then Inr (JObj []) else Inl (ErrorObject ''SyntaxError'')) ''{not json'' =
     Inl (ErrorObject ''SyntaxError'') \<and>
   init_pinnedResources
     (\<lambda>s. if s = ''{}'' then Inr (JObj []) else Inl (ErrorObject ''SyntaxError''))
     (Some (\<lambda>k. Inr (Some ''{not json''))) = Inr [] \<and>
   init_pinnedResources
     (\<lambda>s. if s = ''{}'' then Inr (JObj []) else Inl (ErrorObject ''SyntaxError''))
     (Some (\<lambda>k. Inr (Some ''{}''))) = Inr []"
  using init_pinnedResources_total
    [of "\<lambda>s. if s = ''{}'' then Inr (JObj []) else Inl (ErrorObject ''SyntaxError'')"
        "None" "\<lambda>k. Inr (Some ''{not json'')" "''{not json''"]
    init_pinnedResources_total
    [of "\<lambda>s. if s = ''{}'' then Inr (JObj []) else Inl (ErrorObject ''SyntaxError'')"
        "None" "\<lambda>k. Inr (Some ''{}'')" "''{}''"]
  by (simp add: isArray_def)

subsection \<open>Server\<close>

text \<open>
  C5. \<open>sanitizeBaseUrl\<close> should append \<open>/api\<close> exactly when the URL, trimmed and
  without its trailing slash, has no \<open>/api\<close> path segment. The code tests a text
  pattern instead, and the two differ. \<open>https://api\<close> has no path at all (\<open>api\<close> is
  the host), yet nothing is appended; \<open>https://host/api?x=1\<close> has the path
  \<open>/api\<close>, yet \<open>/api\<close> is appended after the query. The examples of the
  specification hold: \<open>https://host/\<close> and \<open>https://host/api/\<close> both become
  \<open>https://host/api\<close>.
\<close>

theorem sanitizeBaseUrl_misses_path_segment:
  "\<not> has_api_path_segment ''https://api'' \<and>
   sanitizeBaseUrl ''https://api'' = Some ''https://api'' \<and>
   has_api_path_segment ''https://host/api?x=1'' \<and>
   sanitizeBaseUrl ''https://host/api?x=1'' = Some ''https://host/api?x=1/api'' \<and>
   \<not> has_api_path_segment ''https://host'' \<and>
   sanitizeBaseUrl ''https://host/'' = Some ''https://host/api'' \<and>
   has_api_path_segment ''https://host/api'' \<and>
   sanitizeBaseUrl ''https://host/api/'' = Some ''https://host/api''"
  by (simp add: baseurl_eval has_api_path_segment_def url_path_def)

text \<open>
  C4. With the base URL configured and both upstream calls answered, a non-success status
  of the OpenAPI call makes the handler answer 500 with an error that names the OpenAPI
  document, the status code and the status text, also when the projects call succeeded;
  a non-success status of the projects call alone gives the same for the projects. In
  both cases the answer carries no projects and no meta.
\<close>

theorem upstream_failure_fails_request:
  assumes base: "sanitizeBaseUrl (nullish env_base '''') = Some sb"
    and f1: "fetch (openApiUrl sb) (request_headers (nullish env_key '''')) = Inr r1"
    and f2: "fetch (projectsUrl sb) (request_headers (nullish env_key '''')) = Inr r2"
  shows
    "(\<not> ok r1 \<longrightarrow>
        api_config_handler zod_message env_base env_key fetch now =
          \<lparr>reply_status = 500,
           reply_body = JObj [(''error'', JStr (''Unable to load Dokploy OpenAPI document ('' @
              nat_to_string (status_resp r1) @ '' '' @ statusText r1 @ '')''))],
           reply_headers = []\<rparr>) \<and>
     (ok r1 \<and> \<not> ok r2 \<longrightarrow>
        api_config_handler zod_message env_base env_key fetch now =
          \<lparr>reply_status = 500,
           reply_body = JObj [(''error'', JStr (''Unable to load Dokploy projects ('' @
              nat_to_string (status_resp r2) @ '' '' @ statusText r2 @ '')''))],
           reply_headers = []\<rparr>) \<and>
     (\<not> ok r1 \<or> \<not> ok r2 \<longrightarrow>
        reply_status (api_config_handler zod_message env_base env_key fetch now) = 500 \<and>
        json_get (reply_body (api_config_handler zod_message env_base env_key fetch now))
          ''projects'' = None \<and>
        json_get (reply_body (api_config_handler zod_message env_base env_key fetch now))
          ''meta'' = None)"
  using base f1 f2 sanitizeBaseUrl_nonempty [OF base]
  by (auto simp: api_config_handler_def promise_all_def upstream_error_def error_message_def
      error_reply_def json_get_def truthy_string_def Let_def)

theorem upstream_failure_fails_request_witness:
  "sanitizeBaseUrl (nullish (Some ''https://host/'') '''') = Some ''https://host/api'' \<and>
   \<not> ok \<lparr>status_resp = 503, statusText = ''Service Unavailable'', body_json = Inr JNull\<rparr> \<and>
   ok \<lparr>status_resp = 200, statusText = ''OK'', body_json = Inr (JArr [])\<rparr> \<and>
   api_config_handler (\<lambda>is. ''invalid'') (Some ''https://host/'') None
     (\<lambda>url headers. if url = ''https://host/api/settings.getOpenApiDocument''
        then Inr \<lparr>status_resp = 503, statusText = ''Service Unavailable'', body_json = Inr JNull\<rparr>
        else Inr \<lparr>status_resp = 200, statusText = ''OK'', body_json = Inr (JArr [])\<rparr>)
     ''2024-01-01T00:00:00.000Z'' =
     \<lparr>reply_status = 500,
      reply_body = JObj [(''error'',
        JStr ''Unable to load Dokploy OpenAPI document (503 Service Unavailable)'')],
      reply_headers = []\<rparr>"
proof -
  let ?r1 = "\<lparr>status_resp = 503, statusText = ''Service Unavailable'', body_json = Inr JNull\<rparr>"
  let ?r2 = "\<lparr>status_resp = 200, statusText = ''OK'', body_json = Inr (JArr [])\<rparr>"
  let ?fetch = "\<lambda>url (headers :: (string \<times> string) list).
      if url = ''https://host/api/settings.getOpenApiDocument'' then Inr ?r1 else Inr ?r2
        :: thrown + http_response"
  have base: "sanitizeBaseUrl (nullish (Some ''https://host/'') '''') = Some ''https://host/api''"
    by (simp add: nullish_def baseurl_eval)
  have f1: "?fetch (openApiUrl ''https://host/api'') (request_headers (nullish None '''')) = Inr ?r1"
    by (simp add: openApiUrl_def)
  have f2: "?fetch (projectsUrl ''https://host/api'') (request_headers (nullish None '''')) = Inr ?r2"
    by (simp add: projectsUrl_def)
  have n1: "\<not> ok ?r1" by (simp add: ok_def)
  have o2: "ok ?r2" by (simp add: ok_def)
  have s: "nat_to_string 503 = ''503''"
    by (simp add: nat_to_string_def radix_string.simps digit_char_def)
  from upstream_failure_fails_request [OF base f1 f2, where zod_message = "\<lambda>is. ''invalid''"
      and now = "''2024-01-01T00:00:00.000Z''"] n1
  have "api_config_handler (\<lambda>is. ''invalid'') (Some ''https://host/'') None ?fetch
     ''2024-01-01T00:00:00.000Z'' =
     \<lparr>reply_status = 500,
      reply_body = JObj [(''error'',
        JStr ''Unable to load Dokploy OpenAPI document (503 Service Unavailable)'')],
      reply_headers = []\<rparr>"
    by (simp add: s)
  with base n1 o2 show ?thesis by blast
qed

subsection \<open>Schema validation\<close>

text \<open>
  C6, as the code has it. The domain, resource, environment and project schemas and the
  top level of the OpenAPI document are passthrough objects: a field they do not declare
  is in the parsed result with its value. The ConfigResponse envelope is a plain object:
  a field it does not declare is absent from the parsed result. A domain without a
  non-empty string \<open>host\<close> is rejected, and so is an envelope whose \<open>projects\<close> is not
  an array or whose \<open>meta\<close> has no string \<open>fetchedAt\<close>.
\<close>

theorem schemas_unknown_fields:
  "(S \<in> {domainSchema, resourceSchema, environmentSchema, projectSchema, openApiInfoSchema} \<and>
    parse S p (Some (JObj kvs)) = Inr res \<and> k \<notin> shape_keys S \<longrightarrow>
      (\<exists>out. res = Some (JObj out) \<and> map_of out k = map_of kvs k)) \<and>
   (parse configResponseSchema p (Some (JObj kvs)) = Inr res \<and>
    k \<notin> shape_keys configResponseSchema \<longrightarrow>
      (\<exists>out. res = Some (JObj out) \<and> map_of out k = None)) \<and>
   ((\<forall>s. map_of kvs ''host'' = Some (JStr s) \<longrightarrow> s = []) \<longrightarrow>
      (\<exists>is. parse domainSchema p (Some (JObj kvs)) = Inl is)) \<and>
   ((\<forall>xs. map_of kvs ''projects'' \<noteq> Some (JArr xs)) \<longrightarrow>
      (\<exists>is. parse configResponseSchema p (Some (JObj kvs)) = Inl is)) \<and>
   ((\<forall>m. map_of kvs ''meta'' = Some (JObj m) \<longrightarrow> (\<forall>s. map_of m ''fetchedAt'' \<noteq> Some (JStr s))) \<longrightarrow>
      (\<exists>is. parse configResponseSchema p (Some (JObj kvs)) = Inl is))"
proof (intro conjI impI)
  assume h: "S \<in> {domainSchema, resourceSchema, environmentSchema, projectSchema, openApiInfoSchema} \<and>
    parse S p (Some (JObj kvs)) = Inr res \<and> k \<notin> shape_keys S"
  then obtain shape where S: "S = ZObject shape Passthrough"
    by (auto simp: schema_defs)
  with h have "parse (ZObject shape Passthrough) p (Some (JObj kvs)) = Inr res"
    and "k \<notin> fst ` set shape" by (simp_all add: shape_keys_def)
  then show "\<exists>out. res = Some (JObj out) \<and> map_of out k = map_of kvs k"
    by (rule passthrough_keeps)
next
  assume h: "parse configResponseSchema p (Some (JObj kvs)) = Inr res \<and>
    k \<notin> shape_keys configResponseSchema"
  obtain shape where S: "configResponseSchema = ZObject shape Strip"
    by (simp add: configResponseSchema_def)
  from h [unfolded S shape_keys_def] have "parse (ZObject shape Strip) p (Some (JObj kvs)) = Inr res"
    and "k \<notin> fst ` set shape" by simp_all
  then show "\<exists>out. res = Some (JObj out) \<and> map_of out k = None"
    by (rule strip_drops)
next
  assume h: "\<forall>s. map_of kvs ''host'' = Some (JStr s) \<longrightarrow> s = []"
  have "\<exists>is. parse (ZStringMin 1) (p @ [Key ''host'']) (map_of kvs ''host'') = Inl is"
    using h by (auto split: option.splits json.splits)
  then obtain "is" where
    fail: "parse (ZStringMin 1) (p @ [Key ''host'']) (map_of kvs ''host'') = Inl is"
    by blast
  obtain shape where S: "domainSchema = ZObject shape Passthrough"
    and mem: "(''host'', ZStringMin 1) \<in> set shape"
    by (simp add: domainSchema_def)
  show "\<exists>is. parse domainSchema p (Some (JObj kvs)) = Inl is"
    unfolding S by (rule object_field_failure [OF mem fail])
next
  assume h: "\<forall>xs. map_of kvs ''projects'' \<noteq> Some (JArr xs)"
  have "\<exists>is. parse projectListSchema (p @ [Key ''projects'']) (map_of kvs ''projects'') = Inl is"
    using h by (auto simp: projectListSchema_def split: option.splits json.splits)
  then obtain "is" where
    fail: "parse projectListSchema (p @ [Key ''projects'']) (map_of kvs ''projects'') = Inl is"
    by blast
  obtain shape where S: "configResponseSchema = ZObject shape Strip"
    and mem: "(''projects'', projectListSchema) \<in> set shape"
    by (simp add: configResponseSchema_def)
  show "\<exists>is. parse configResponseSchema p (Some (JObj kvs)) = Inl is"
    unfolding S by (rule object_field_failure [OF mem fail])
next
  assume h: "\<forall>m. map_of kvs ''meta'' = Some (JObj m) \<longrightarrow> (\<forall>s. map_of m ''fetchedAt'' \<noteq> Some (JStr s))"
  let ?meta = "ZObject
         [(''title'', ZOptional ZString),
          (''version'', ZOptional ZString),
          (''description'', ZOptional ZString),
          (''servers'', ZDefault (ZArray ZString) (JArr [])),
          (''fetchedAt'', ZString)] Strip"
  have "\<exists>is. parse ?meta (p @ [Key ''meta'']) (map_of kvs ''meta'') = Inl is"
  proof (cases "\<exists>m. map_of kvs ''meta'' = Some (JObj m)")
    case True
    then obtain m where m: "map_of kvs ''meta'' = Some (JObj m)" by blast
    with h have "\<forall>s. map_of m ''fetchedAt'' \<noteq> Some (JStr s)" by blast
    then have "\<exists>is. parse ZString (p @ [Key ''meta''] @ [Key ''fetchedAt'']) (map_of m ''fetchedAt'') = Inl is"
      by (auto split: option.splits json.splits)
    then obtain "is" where f: 
      "parse ZString ((p @ [Key ''meta'']) @ [Key ''fetchedAt'']) (map_of m ''fetchedAt'') = Inl is"
      by auto
    have mm: "(''fetchedAt'', ZString) \<in> set [(''title'', ZOptional ZString),
          (''version'', ZOptional ZString),
          (''description'', ZOptional ZString),
          (''servers'', ZDefault (ZArray ZString) (JArr [])),
          (''fetchedAt'', ZString)]" by simp
    have "\<exists>js. parse ?meta (p @ [Key ''meta'']) (Some (JObj m)) = Inl js"
      by (rule object_field_failure [OF mm f])
    then show ?thesis unfolding m .
  next
    case False
    then show ?thesis by (auto split: option.splits json.splits)
  qed
  then obtain "is" where fail: "parse ?meta (p @ [Key ''meta'']) (map_of kvs ''meta'') = Inl is"
    by blast
  obtain shape where S: "configResponseSchema = ZObject shape Strip"
    and mem: "(''meta'', ?meta) \<in> set shape"
    by (simp add: configResponseSchema_def)
  show "\<exists>is. parse configResponseSchema p (Some (JObj kvs)) = Inl is"
    unfolding S by (rule object_field_failure [OF mem fail])
qed

theorem schemas_unknown_fields_witness:
  "domainSchema \<in> {domainSchema, resourceSchema, environmentSchema, projectSchema, openApiInfoSchema} \<and>
   parse domainSchema [] (Some (JObj [(''host'', JStr ''a.com''), (''zone'', JStr ''eu'')])) =
     Inr (Some (JObj [(''host'', JStr ''a.com''), (''zone'', JStr ''eu'')])) \<and>
   ''zone'' \<notin> shape_keys domainSchema \<and>
   (\<exists>out. Some (JObj [(''host'', JStr ''a.com''), (''zone'', JStr ''eu'')]) = Some (JObj out) \<and>
      map_of out ''zone'' = Some (JStr ''eu'')) \<and>
   (\<exists>is. parse domainSchema [] (Some (JObj [(''zone'', JStr ''eu'')])) = Inl is)"
proof -
  let ?kvs = "[(''host'', JStr ''a.com''), (''zone'', JStr ''eu'')]"
  have m: "domainSchema \<in> {domainSchema, resourceSchema, environmentSchema, projectSchema, openApiInfoSchema}"
    by simp
  have e: "parse domainSchema [] (Some (JObj ?kvs)) = Inr (Some (JObj ?kvs))"
    by (simp add: schema_defs parse_eval)
  have k: "''zone'' \<notin> shape_keys domainSchema"
    by (simp add: shape_keys_def domainSchema_def)
  from schemas_unknown_fields [of domainSchema "[]" ?kvs "Some (JObj ?kvs)" "''zone''"] m e k
  have 1: "\<exists>out. Some (JObj ?kvs) = Some (JObj out) \<and> map_of out ''zone'' = map_of ?kvs ''zone''"
    by blast
  have h: "\<forall>s. map_of [(''zone'', JStr ''eu'')] ''host'' = Some (JStr s) \<longrightarrow> s = []" by simp
  from schemas_unknown_fields [of domainSchema "[]" "[(''zone'', JStr ''eu'')]" None "''zone''"] h
  have 2: "\<exists>is. parse domainSchema [] (Some (JObj [(''zone'', JStr ''eu'')])) = Inl is"
    by blast
  from 1 have "\<exists>out. Some (JObj ?kvs) = Some (JObj out) \<and> map_of out ''zone'' = Some (JStr ''eu'')"
    by simp
  with m e k 2 show ?thesis by blast
qed

text \<open>
  C6 as stated fails for the ConfigResponse envelope: it accepts an object with a field
  it does not declare, and the parsed result does not have the field.
\<close>

theorem configResponse_drops_extra_field:
  "parse configResponseSchema []
      (Some (JObj [(''projects'', JArr []),
                   (''meta'', JObj [(''fetchedAt'', JStr ''2024-01-01T00:00:00.000Z'')]),
                   (''extra'', JBool True)])) =
    Inr (Some (JObj [(''projects'', JArr []),
                     (''meta'', JObj [(''servers'', JArr []),
                                      (''fetchedAt'', JStr ''2024-01-01T00:00:00.000Z'')])])) \<and>
   map_of [(''projects'', JArr []),
           (''meta'', JObj [(''servers'', JArr []),
                            (''fetchedAt'', JStr ''2024-01-01T00:00:00.000Z'')])] ''extra'' = None \<and>
   map_of [(''projects'', JArr []),
           (''meta'', JObj [(''fetchedAt'', JStr ''2024-01-01T00:00:00.000Z'')]),
           (''extra'', JBool True)] ''extra'' = Some (JBool True)"
  by (simp add: schema_defs parse_eval)


end
